theory Spec2Isabelle
  imports Main "HOL-Library.AList"
begin

section \<open>JavaScript values\<close>

text \<open>
  The engine of \<^verbatim>\<open>src/patched-sync.js\<close> works on untyped JSON-like trees. A value is
  \<^verbatim>\<open>undefined\<close>, \<^verbatim>\<open>null\<close>, a boolean, a number, a string, an array or a plain object.
  Numbers are integers here (the values JSON indices and counters take); an object is the
  list of its own enumerable properties in enumeration order, which is what
  \<^verbatim>\<open>Object.keys\<close> walks. A new key goes to the end of the list; JavaScript lists keys
  that read as array indices before the others, so for such keys the order of the list
  can differ from the order of enumeration, which no property below depends on.
  Properties inherited from a prototype (\<^verbatim>\<open>toString\<close>, \<^verbatim>\<open>constructor\<close>, ...) are not
  part of the model, so keys are taken to differ from those names.

  Values are immutable trees: the in-place updates of the source are written as the
  updated tree. This is exact as long as no object is reachable twice, which holds for
  every value read from JSON text and for every result of \<^verbatim>\<open>jiff.clone\<close>.
\<close>

datatype jv =
    JUndef
  | JNull
  | JBool bool
  | JNum int
  | JStr string
  | JArr "jv list"
  | JObj "(string \<times> jv) list"

text \<open>\<^verbatim>\<open>PatchedSync.DELETE = "$$__&&__DELETE_$_&_$"\<close>\<close>

definition DELETE :: string where
  "DELETE = ''$$__&&__DELETE_$_&_$''"

text \<open>The module is an ES module and the code sits in a class body, so it runs in strict
  mode: reading a property of \<^verbatim>\<open>null\<close> or \<^verbatim>\<open>undefined\<close>, \<^verbatim>\<open>Object.keys(null)\<close> and
  assigning a property on a primitive all raise \<^verbatim>\<open>TypeError\<close>.\<close>

datatype type_error =
    ReadOfNullish      \<comment> \<open>Cannot read properties of null / undefined\<close>
  | KeysOfNullish      \<comment> \<open>\<^verbatim>\<open>Object.keys\<close>: Cannot convert undefined or null to object\<close>
  | WriteToPrimitive   \<comment> \<open>Cannot create property / assign to read only property on a primitive\<close>

definition truthy :: "jv \<Rightarrow> bool" where
  "truthy v = (case v of
      JUndef \<Rightarrow> False
    | JNull \<Rightarrow> False
    | JBool b \<Rightarrow> b
    | JNum n \<Rightarrow> n \<noteq> 0
    | JStr s \<Rightarrow> s \<noteq> []
    | JArr xs \<Rightarrow> True
    | JObj kvs \<Rightarrow> True)"

text \<open>\<^verbatim>\<open>typeof v === "object"\<close>: true of objects, arrays and \<^verbatim>\<open>null\<close>.\<close>

definition typeof_object :: "jv \<Rightarrow> bool" where
  "typeof_object v = (case v of JNull \<Rightarrow> True | JArr xs \<Rightarrow> True | JObj kvs \<Rightarrow> True | _ \<Rightarrow> False)"

definition is_nullish :: "jv \<Rightarrow> bool" where
  "is_nullish v = (v = JUndef \<or> v = JNull)"

definition isArray :: "jv \<Rightarrow> bool" where
  "isArray v = (case v of JArr xs \<Rightarrow> True | _ \<Rightarrow> False)"

subsection \<open>Property names of arrays and strings\<close>

definition digit_char :: "nat \<Rightarrow> char" where
  "digit_char d = char_of (48 + d)"

text \<open>The decimal numeral of an index, as \<^verbatim>\<open>Object.keys\<close> of an array lists it.\<close>

fun show_nat :: "nat \<Rightarrow> string" where
  "show_nat n = (if n < 10 then [digit_char n] else show_nat (n div 10) @ [digit_char (n mod 10)])"

declare show_nat.simps [simp del]

definition is_digit :: "char \<Rightarrow> bool" where
  "is_digit c = (48 \<le> (of_char c :: nat) \<and> (of_char c :: nat) \<le> 57)"

definition digits_value :: "string \<Rightarrow> nat" where
  "digits_value s = foldl (\<lambda>acc c. 10 * acc + ((of_char c :: nat) - 48)) 0 s"

text \<open>A property name is an array index when it is the canonical numeral of a number.\<close>

definition index_of :: "string \<Rightarrow> nat option" where
  "index_of key =
     (if key \<noteq> [] \<and> list_all is_digit key \<and> (key = ''0'' \<or> hd key \<noteq> CHR ''0'')
      then Some (digits_value key) else None)"

definition obj_get :: "(string \<times> jv) list \<Rightarrow> string \<Rightarrow> jv" where
  "obj_get kvs key = (case map_of kvs key of None \<Rightarrow> JUndef | Some v \<Rightarrow> v)"

text \<open>\<^verbatim>\<open>x[key]\<close> for a value that is neither \<^verbatim>\<open>null\<close> nor \<^verbatim>\<open>undefined\<close> (those raise, and
  every caller checks \<open>is_nullish\<close> first): an own property, an element or the length.\<close>

definition get_prop :: "jv \<Rightarrow> string \<Rightarrow> jv" where
  "get_prop x key = (case x of
      JObj kvs \<Rightarrow> obj_get kvs key
    | JArr xs \<Rightarrow>
        (if key = ''length'' then JNum (int (length xs))
         else case index_of key of
           Some i \<Rightarrow> if i < length xs then xs ! i else JUndef
         | None \<Rightarrow> JUndef)
    | JStr s \<Rightarrow>
        (if key = ''length'' then JNum (int (length s))
         else case index_of key of
           Some i \<Rightarrow> if i < length s then JStr [s ! i] else JUndef
         | None \<Rightarrow> JUndef)
    | _ \<Rightarrow> JUndef)"

text \<open>\<^verbatim>\<open>ToNumber\<close>, with \<open>None\<close> for \<^verbatim>\<open>NaN\<close>. Strings are read as plain decimal
  numerals; other numeric strings and the string forms of arrays and objects are taken
  as \<^verbatim>\<open>NaN\<close>.\<close>

definition to_number :: "jv \<Rightarrow> int option" where
  "to_number v = (case v of
      JUndef \<Rightarrow> None
    | JNull \<Rightarrow> Some 0
    | JBool b \<Rightarrow> Some (if b then 1 else 0)
    | JNum n \<Rightarrow> Some n
    | JStr s \<Rightarrow> (if s = [] then Some 0
                 else if list_all is_digit s then Some (int (digits_value s)) else None)
    | JArr xs \<Rightarrow> None
    | JObj kvs \<Rightarrow> None)"

text \<open>\<^verbatim>\<open>ToIntegerOrInfinity\<close>: \<^verbatim>\<open>NaN\<close> becomes 0.\<close>

definition to_integer :: "jv \<Rightarrow> int" where
  "to_integer v = (case to_number v of None \<Rightarrow> 0 | Some n \<Rightarrow> n)"

subsection \<open>Array methods\<close>

text \<open>\<^verbatim>\<open>Array.prototype.splice(start, deleteCount, ...items)\<close>: a negative start counts
  from the end, and the start is clamped to the array.\<close>

definition array_splice :: "jv list \<Rightarrow> int \<Rightarrow> nat \<Rightarrow> jv list \<Rightarrow> jv list" where
  "array_splice xs start deleteCount items =
     (let len = int (length xs);
          actualStart = nat (if start < 0 then max (len + start) 0 else min start len)
      in take actualStart xs @ items @ drop (actualStart + deleteCount) xs)"

text \<open>The values \<^verbatim>\<open>operations[0]\<close>, ..., \<^verbatim>\<open>operations[operations.length - 1]\<close> that the loop
  \<^verbatim>\<open>for (index = 0; index < operations.length; index++)\<close> visits.\<close>

definition elements :: "jv \<Rightarrow> jv list" where
  "elements operations = (case operations of
      JArr xs \<Rightarrow> xs
    | JStr s \<Rightarrow> map (\<lambda>c. JStr [c]) s
    | JObj kvs \<Rightarrow>
        (case to_number (obj_get kvs ''length'') of
           None \<Rightarrow> []
         | Some n \<Rightarrow> map (\<lambda>i. obj_get kvs (show_nat i)) [0..<nat n])
    | _ \<Rightarrow> [])"

section \<open>The deep merge of \<^verbatim>\<open>change\<close>\<close>

text \<open>A call either returns a value or throws. The source updates \<^verbatim>\<open>subject\<close> in place,
  so a call that throws leaves the object it was given partly updated: \<open>Threw e s\<close>
  carries the contents \<open>s\<close> of that object at the moment of the throw.\<close>

datatype outcome = Done jv | Threw type_error jv

text \<open>One turn of the loop over \<^verbatim>\<open>changes.operations\<close>: the \<^verbatim>\<open>switch (operation.op)\<close>.\<close>

definition apply_operation :: "jv list \<Rightarrow> jv \<Rightarrow> type_error + jv list" where
  "apply_operation subject operation =
     (if is_nullish operation then Inl ReadOfNullish
      else let op = get_prop operation ''op'' in
        if op = JStr ''push'' then Inr (subject @ [get_prop operation ''value''])
        else if op = JStr ''splice'' then
          Inr (array_splice subject (to_integer (get_prop operation ''index'')) 0 [get_prop operation ''value''])
        else if op = JStr ''unshift'' then Inr (get_prop operation ''value'' # subject)
        else if op = JStr ''remove'' then
          Inr (array_splice subject (to_integer (get_prop operation ''index'')) 1 [])
        else Inr subject)"

fun apply_operations :: "jv list \<Rightarrow> jv list \<Rightarrow> outcome" where
  "apply_operations subject [] = Done (JArr subject)"
| "apply_operations subject (operation # rest) =
     (case apply_operation subject operation of
        Inl e \<Rightarrow> Threw e (JArr subject)
      | Inr subject' \<Rightarrow> apply_operations subject' rest)"

text \<open>The branch \<^verbatim>\<open>if (Array.isArray(subject))\<close>.\<close>

definition array_change :: "jv list \<Rightarrow> jv \<Rightarrow> outcome" where
  "array_change subject changes =
     (if isArray changes then Done changes
      else if is_nullish changes then Threw ReadOfNullish (JArr subject)
      else let operations = get_prop changes ''operations'' in
        if truthy operations then apply_operations subject (elements operations)
        else Done (JArr subject))"

text \<open>\<^verbatim>\<open>Object.keys(changes)\<close> of an array, paired with \<^verbatim>\<open>changes[key]\<close>.\<close>

fun index_entries :: "nat \<Rightarrow> jv list \<Rightarrow> (string \<times> jv) list" where
  "index_entries i [] = []"
| "index_entries i (v # vs) = (show_nat i, v) # index_entries (Suc i) vs"

lemma size_index_entries:
  "size_list (\<lambda>p. size (snd p)) (index_entries i ys) = size_list size ys"
  by (induction ys arbitrary: i) simp_all

lemma size_entries_le:
  "size_list (\<lambda>p. size (snd p)) es \<le> size_list (size_prod (\<lambda>x. 0) size) es"
  by (induction es) auto

text \<open>The \<^verbatim>\<open>switch (value)\<close> of the merge on an object: the \<^verbatim>\<open>case PatchedSync.DELETE\<close>
  has no \<^verbatim>\<open>break\<close>, so after the key is deleted control falls through to
  \<^verbatim>\<open>default: subject[key] = value\<close>.\<close>

definition assign_key :: "(string \<times> jv) list \<Rightarrow> string \<Rightarrow> jv \<Rightarrow> (string \<times> jv) list" where
  "assign_key subject key v =
     (let subject' = (if v = JStr DELETE \<and> obj_get subject key \<noteq> JUndef
                      then AList.delete key subject else subject)
      in AList.update key v subject')"

text \<open>
  \<open>deepChange\<close> is the arrow function of \<^verbatim>\<open>change\<close>; \<open>change_keys\<close> is its loop
  \<^verbatim>\<open>for (index = 0; index < keys.length; index++)\<close> on a subject that is an object,
  given the pairs of \<^verbatim>\<open>key\<close> and \<^verbatim>\<open>changes[key]\<close> still to visit. On a subject that is
  \<^verbatim>\<open>null\<close>, \<^verbatim>\<open>undefined\<close> or a primitive the first turn of the loop already throws:
  at the read \<^verbatim>\<open>subject[key]\<close>, inside the recursive call, or at the assignment
  \<^verbatim>\<open>subject[key] = ...\<close>.
\<close>

function (sequential) deepChange :: "jv \<Rightarrow> jv \<Rightarrow> outcome"
  and change_keys :: "(string \<times> jv) list \<Rightarrow> (string \<times> jv) list \<Rightarrow> outcome"
  and first_key :: "jv \<Rightarrow> string \<Rightarrow> jv \<Rightarrow> outcome"
where
  "deepChange (JArr xs) changes = array_change xs changes"
| "deepChange subject JNull = Threw KeysOfNullish subject"
| "deepChange (JObj kvs) (JObj ckvs) = change_keys kvs ckvs"
| "deepChange (JObj kvs) (JArr ys) = change_keys kvs (index_entries 0 ys)"
| "deepChange subject (JObj []) = Done subject"
| "deepChange subject (JObj ((key, v) # rest)) = first_key subject key v"
| "deepChange subject (JArr []) = Done subject"
| "deepChange subject (JArr (v # rest)) = first_key subject ''0'' v"
| "deepChange subject changes = Done changes"
| "change_keys subject [] = Done (JObj subject)"
| "change_keys subject ((key, v) # rest) =
     (if truthy (obj_get subject key) \<and> typeof_object v then
        (case deepChange (obj_get subject key) v of
           Threw e partial \<Rightarrow> Threw e (JObj (AList.update key partial subject))
         | Done r \<Rightarrow> change_keys (AList.update key r subject) rest)
      else change_keys (assign_key subject key v) rest)"
| "first_key subject key v =
     (if is_nullish subject then Threw ReadOfNullish subject
      else if truthy (get_prop subject key) \<and> typeof_object v then
        (case deepChange (get_prop subject key) v of
           Threw e partial \<Rightarrow> Threw e subject
         | Done r \<Rightarrow> Threw WriteToPrimitive subject)
      else Threw WriteToPrimitive subject)"
  by pat_completeness auto

termination
proof (relation "measure (\<lambda>x. case x of
    Inl (s, c) \<Rightarrow> 2 * size c
  | Inr (Inl (kvs, es)) \<Rightarrow> 2 * size_list (\<lambda>p. size (snd p)) es + 1
  | Inr (Inr (s, key, v)) \<Rightarrow> 2 * size v + 1)", goal_cases)
  case 1
  show ?case by simp
next
  case (2 kvs ckvs)
  show ?case using size_entries_le [of ckvs] by simp
next
  case (3 kvs ys)
  show ?case by (simp add: size_index_entries)
qed simp_all

section \<open>The patch codec\<close>

text \<open>
  Modelled from the spec: the patch codec, which the source imports as the library
  \<^verbatim>\<open>jiff\<close>, is a dependency of the repository and not part of its sources. The
  specification describes it as the diff and the application of ordered documents of
  add, remove, replace, move, copy and test operations addressed by slash-delimited
  pointer paths; the details below are those of JSON Patch (RFC 6902) and JSON Pointer
  (RFC 6901), which \<^verbatim>\<open>jiff\<close> implements. The engine calls three functions.
  \<^verbatim>\<open>jiff.clone\<close> makes a deep copy: on immutable trees it is the identity.
  \<^verbatim>\<open>jiff.diff\<close> computes some patch from one document to another; the engine only
  stores and sends its result, so it is a parameter \<open>diff\<close> of the functions below.
  \<^verbatim>\<open>jiff.patch\<close> applies a patch to a clone of the document and throws when an
  operation does not apply.
\<close>

definition jiff_clone :: "jv \<Rightarrow> jv" where
  "jiff_clone x = x"

datatype operation =
    Add string jv          \<comment> \<open>\<^verbatim>\<open>{op: "add", path, value}\<close>\<close>
  | Remove string          \<comment> \<open>\<^verbatim>\<open>{op: "remove", path}\<close>\<close>
  | Replace string jv      \<comment> \<open>\<^verbatim>\<open>{op: "replace", path, value}\<close>\<close>
  | Move string string     \<comment> \<open>\<^verbatim>\<open>{op: "move", from, path}\<close>\<close>
  | Copy string string     \<comment> \<open>\<^verbatim>\<open>{op: "copy", from, path}\<close>\<close>
  | Test string jv         \<comment> \<open>\<^verbatim>\<open>{op: "test", path, value}\<close>\<close>

datatype patch_error = InvalidPatchOperation | TestFailed

text \<open>JSON Pointer (RFC 6901): the reference tokens of a path, with \<^verbatim>\<open>~1\<close> for \<^verbatim>\<open>/\<close> and
  \<^verbatim>\<open>~0\<close> for \<^verbatim>\<open>~\<close>.\<close>

fun segments :: "string \<Rightarrow> string list" where
  "segments [] = [[]]"
| "segments (c # cs) =
     (if c = CHR ''/'' then [] # segments cs
      else case segments cs of [] \<Rightarrow> [[c]] | t # ts \<Rightarrow> (c # t) # ts)"

fun unescape :: "string \<Rightarrow> string" where
  "unescape [] = []"
| "unescape [c] = [c]"
| "unescape (c # d # cs) =
     (if c = CHR ''~'' \<and> d = CHR ''1'' then CHR ''/'' # unescape cs
      else if c = CHR ''~'' \<and> d = CHR ''0'' then CHR ''~'' # unescape cs
      else c # unescape (d # cs))"

definition parse_pointer :: "string \<Rightarrow> string list option" where
  "parse_pointer path =
     (case path of
        [] \<Rightarrow> Some []
      | c # cs \<Rightarrow> if c = CHR ''/'' then Some (map unescape (segments cs)) else None)"

definition child :: "jv \<Rightarrow> string \<Rightarrow> jv option" where
  "child doc t = (case doc of
      JObj kvs \<Rightarrow> map_of kvs t
    | JArr xs \<Rightarrow> (case index_of t of
                    Some i \<Rightarrow> if i < length xs then Some (xs ! i) else None
                  | None \<Rightarrow> None)
    | _ \<Rightarrow> None)"

fun get_at :: "string list \<Rightarrow> jv \<Rightarrow> jv option" where
  "get_at [] doc = Some doc"
| "get_at (t # ts) doc = (case child doc t of None \<Rightarrow> None | Some c \<Rightarrow> get_at ts c)"

datatype edit = EAdd jv | ERemove | EReplace jv

text \<open>The edit of the member that the last token of a path names.\<close>

definition edit_member :: "edit \<Rightarrow> string \<Rightarrow> jv \<Rightarrow> jv option" where
  "edit_member e t parent = (case parent of
      JObj kvs \<Rightarrow>
        (case e of
           EAdd v \<Rightarrow> Some (JObj (AList.update t v kvs))
         | ERemove \<Rightarrow> if map_of kvs t = None then None else Some (JObj (AList.delete t kvs))
         | EReplace v \<Rightarrow> if map_of kvs t = None then None else Some (JObj (AList.update t v kvs)))
    | JArr xs \<Rightarrow>
        (case e of
           EAdd v \<Rightarrow>
             if t = ''-'' then Some (JArr (xs @ [v]))
             else (case index_of t of
                     Some i \<Rightarrow> if i \<le> length xs then Some (JArr (take i xs @ v # drop i xs)) else None
                   | None \<Rightarrow> None)
         | ERemove \<Rightarrow>
             (case index_of t of
                Some i \<Rightarrow> if i < length xs then Some (JArr (take i xs @ drop (Suc i) xs)) else None
              | None \<Rightarrow> None)
         | EReplace v \<Rightarrow>
             (case index_of t of
                Some i \<Rightarrow> if i < length xs then Some (JArr (xs[i := v])) else None
              | None \<Rightarrow> None))
    | _ \<Rightarrow> None)"

definition set_child :: "jv \<Rightarrow> string \<Rightarrow> jv \<Rightarrow> jv option" where
  "set_child doc t c = edit_member (EReplace c) t doc"

fun edit_at :: "edit \<Rightarrow> string list \<Rightarrow> jv \<Rightarrow> jv option" where
  "edit_at e [] doc = (case e of EAdd v \<Rightarrow> Some v | ERemove \<Rightarrow> None | EReplace v \<Rightarrow> Some v)"
| "edit_at e [t] doc = edit_member e t doc"
| "edit_at e (t # ts) doc =
     (case child doc t of
        None \<Rightarrow> None
      | Some c \<Rightarrow> (case edit_at e ts c of None \<Rightarrow> None | Some c' \<Rightarrow> set_child doc t c'))"

text \<open>The equality of the \<^verbatim>\<open>test\<close> operation: the order of an object's members does not
  count.\<close>

fun deepEquals :: "jv \<Rightarrow> jv \<Rightarrow> bool" where
  "deepEquals (JArr xs) (JArr ys) = list_all2 deepEquals xs ys"
| "deepEquals (JObj a) (JObj b) =
     (set (map fst a) = set (map fst b) \<and> list_all (\<lambda>(k, v). deepEquals v (obj_get b k)) a)"
| "deepEquals x y = (x = y)"

definition apply_edit :: "edit \<Rightarrow> string \<Rightarrow> jv \<Rightarrow> patch_error + jv" where
  "apply_edit e path doc =
     (case parse_pointer path of
        None \<Rightarrow> Inl InvalidPatchOperation
      | Some ts \<Rightarrow> (case edit_at e ts doc of None \<Rightarrow> Inl InvalidPatchOperation | Some doc' \<Rightarrow> Inr doc'))"

definition lookup_path :: "string \<Rightarrow> jv \<Rightarrow> patch_error + jv" where
  "lookup_path path doc =
     (case parse_pointer path of
        None \<Rightarrow> Inl InvalidPatchOperation
      | Some ts \<Rightarrow> (case get_at ts doc of None \<Rightarrow> Inl InvalidPatchOperation | Some v \<Rightarrow> Inr v))"

definition apply_op :: "operation \<Rightarrow> jv \<Rightarrow> patch_error + jv" where
  "apply_op p doc = (case p of
      Add path v \<Rightarrow> apply_edit (EAdd v) path doc
    | Remove path \<Rightarrow> apply_edit ERemove path doc
    | Replace path v \<Rightarrow> apply_edit (EReplace v) path doc
    | Move src path \<Rightarrow>
        (case lookup_path src doc of
           Inl e \<Rightarrow> Inl e
         | Inr v \<Rightarrow> (case apply_edit ERemove src doc of
                      Inl e \<Rightarrow> Inl e
                    | Inr doc' \<Rightarrow> apply_edit (EAdd v) path doc'))
    | Copy src path \<Rightarrow>
        (case lookup_path src doc of
           Inl e \<Rightarrow> Inl e
         | Inr v \<Rightarrow> apply_edit (EAdd v) path doc)
    | Test path v \<Rightarrow>
        (case lookup_path path doc of
           Inl e \<Rightarrow> Inl e
         | Inr w \<Rightarrow> if deepEquals w v then Inr doc else Inl TestFailed))"

fun jiff_patch :: "operation list \<Rightarrow> jv \<Rightarrow> patch_error + jv" where
  "jiff_patch [] doc = Inr doc"
| "jiff_patch (p # ps) doc = (case apply_op p doc of Inl e \<Rightarrow> Inl e | Inr doc' \<Rightarrow> jiff_patch ps doc')"

section \<open>The engine\<close>

text \<open>
  A transport is an object with the asynchronous methods \<^verbatim>\<open>get()\<close> and
  \<^verbatim>\<open>patch(patch)\<close>: each call resolves with a value or rejects with a failure of the
  transport's own (\<open>Inl\<close>), and may change the transport's state.
\<close>

record ('e, 't) transport =
  tstate :: 't
  tget :: "'t \<Rightarrow> ('e + jv) \<times> 't"
  tpatch :: "'t \<Rightarrow> operation list \<Rightarrow> ('e + operation list) \<times> 't"

text \<open>
  The fields of a \<^verbatim>\<open>PatchedSync\<close>: \<^verbatim>\<open>_object\<close>, \<^verbatim>\<open>_listeners\<close>, \<^verbatim>\<open>_history\<close> and
  \<^verbatim>\<open>transport\<close> (\<open>None\<close> when the configuration named none). A listener is a callback
  the caller owns; it is known here by a number, and \<open>delivered\<close> logs every call of a
  listener with the event it was registered for and the data it received. Listeners are
  taken to return normally and not to call back into the engine.
\<close>

record ('e, 't) patched_sync =
  this_object :: jv
  this_listeners :: "(string \<times> nat list) list"
  this_history :: "operation list list"
  this_transport :: "('e, 't) transport option"
  delivered :: "(nat \<times> string \<times> jv) list"

text \<open>What an awaited call rejects with.\<close>

datatype 'e failure =
    TypeError type_error
  | PatchError patch_error
  | TransportError 'e

text \<open>What a method hands to its caller: \<open>Clone v\<close> for \<^verbatim>\<open>return jiff.clone(this._object)\<close>,
  a fresh copy, and \<open>Internal v\<close> for \<^verbatim>\<open>return this._object\<close>, the engine's own object.\<close>

datatype handed = Clone jv | Internal jv

subsection \<open>Construction\<close>

datatype ('e, 't) transport_option =
    Missing                          \<comment> \<open>\<^verbatim>\<open>config.transport\<close> is absent or another falsy value\<close>
  | Named string                     \<comment> \<open>a string\<close>
  | Instance "('e, 't) transport"    \<comment> \<open>an object\<close>
  | Other                            \<comment> \<open>a truthy value that is neither: a number, \<^verbatim>\<open>true\<close>, a function\<close>

record ('e, 't) config =
  transport :: "('e, 't) transport_option"
  get_url :: jv
  patch_url :: jv
  socket_url :: jv
  get_message :: jv
  patch_message :: jv
  interval :: jv



definition or_else :: "jv \<Rightarrow> jv \<Rightarrow> jv" where
  "or_else a b = (if truthy a then a else b)"

definition initial_listeners :: "(string \<times> nat list) list" where
  "initial_listeners =
     [(''get:start'', []), (''get:end'', []), (''get:error'', []),
      (''patch:start'', []), (''patch:end'', []), (''patch:error'', [])]"

definition new_instance :: "jv \<Rightarrow> ('e, 't) transport option \<Rightarrow> ('e, 't) patched_sync" where
  "new_instance initial_object tr =
     \<lparr> this_object = or_else (jiff_clone (or_else initial_object (JObj []))) (JObj []),
       this_listeners = initial_listeners,
       this_history = [],
       this_transport = tr,
       delivered = [] \<rparr>"



subsection \<open>Listeners\<close>

definition push_listener ::
  "string \<Rightarrow> nat \<Rightarrow> (string \<times> nat list) list \<Rightarrow> (string \<times> nat list) list" where
  "push_listener event_name fn ls = AList.map_entry event_name (\<lambda>fns. fns @ [fn]) ls"

text \<open>\<^verbatim>\<open>on(command, fn)\<close>. Pushing onto the list of an event name that is not one of the
  six raises \<^verbatim>\<open>TypeError\<close>. The key the method returns is random and left out.\<close>

definition on :: "string \<Rightarrow> nat \<Rightarrow> ('e, 't) patched_sync \<Rightarrow> type_error + ('e, 't) patched_sync" where
  "on command fn s =
     (if command = ''*'' \<or> command = ''*:*'' then
        Inr (s\<lparr>this_listeners :=
               push_listener ''patch:end'' fn
                 (push_listener ''patch:start'' fn
                   (push_listener ''get:end'' fn
                     (push_listener ''get:start'' fn (this_listeners s))))\<rparr>)
      else
        let command' = (if CHR '':'' \<notin> set command then command @ '':end'' else command) in
        (case map_of (this_listeners s) command' of
           None \<Rightarrow> Inl ReadOfNullish
         | Some fns \<Rightarrow> Inr (s\<lparr>this_listeners := push_listener command' fn (this_listeners s)\<rparr>)))"

definition notify :: "string \<Rightarrow> jv \<Rightarrow> ('e, 't) patched_sync \<Rightarrow> ('e, 't) patched_sync" where
  "notify event_name data s =
     (case map_of (this_listeners s) event_name of
        None \<Rightarrow> s
      | Some fns \<Rightarrow>
          s\<lparr>delivered := delivered s @ map (\<lambda>fn. (fn, event_name, jiff_clone data)) fns\<rparr>)"

subsection \<open>The methods\<close>

text \<open>Each method runs to its end before the next call starts: calls that overlap at an
  \<^verbatim>\<open>await\<close> are outside this model. A method returns the new state of the instance and
  what the awaited call resolves (\<open>Inr\<close>) or rejects (\<open>Inl\<close>) with.\<close>

definition get :: "('e, 't) patched_sync \<Rightarrow> handed" where
  "get s = Clone (jiff_clone (this_object s))"

definition fetch :: "('e, 't) patched_sync \<Rightarrow> ('e, 't) patched_sync \<times> ('e failure + handed)" where
  "fetch s =
     (let s1 = notify ''get:start'' JUndef s in
      case this_transport s1 of
        None \<Rightarrow> (s1, Inl (TypeError ReadOfNullish))
      | Some tr \<Rightarrow>
          (case tget tr (tstate tr) of
             (Inl e, t') \<Rightarrow> (s1\<lparr>this_transport := Some (tr\<lparr>tstate := t'\<rparr>)\<rparr>, Inl (TransportError e))
           | (Inr v, t') \<Rightarrow>
               let s2 = s1\<lparr>this_transport := Some (tr\<lparr>tstate := t'\<rparr>), this_object := v\<rparr>;
                   s3 = notify ''get:end'' (this_object s2) s2
               in (s3, Inr (Clone (jiff_clone (this_object s3))))))"

text \<open>The second half of \<^verbatim>\<open>change\<close> and \<^verbatim>\<open>patch\<close>, from
  \<^verbatim>\<open>await this.transport.patch(patch)\<close> to \<^verbatim>\<open>this.notify("patch:end", this._object)\<close>.\<close>

definition round_trip ::
  "operation list \<Rightarrow> ('e, 't) patched_sync \<Rightarrow> ('e, 't) patched_sync \<times> ('e failure + unit)" where
  "round_trip patch s =
     (case this_transport s of
        None \<Rightarrow> (s, Inl (TypeError ReadOfNullish))
      | Some tr \<Rightarrow>
          (case tpatch tr (tstate tr) patch of
             (Inl e, t') \<Rightarrow> (s\<lparr>this_transport := Some (tr\<lparr>tstate := t'\<rparr>)\<rparr>, Inl (TransportError e))
           | (Inr server_patch, t') \<Rightarrow>
               let s1 = s\<lparr>this_transport := Some (tr\<lparr>tstate := t'\<rparr>)\<rparr> in
               (case jiff_patch server_patch (this_object s1) of
                  Inl e \<Rightarrow> (s1, Inl (PatchError e))
                | Inr v \<Rightarrow>
                    let s2 = s1\<lparr>this_object := v\<rparr>
                    in (notify ''patch:end'' (this_object s2) s2, Inr ()))))"

definition change ::
  "(jv \<Rightarrow> jv \<Rightarrow> operation list) \<Rightarrow> jv \<Rightarrow> ('e, 't) patched_sync \<Rightarrow>
   ('e, 't) patched_sync \<times> ('e failure + handed)" where
  "change diff obj s =
     (let s1 = notify ''patch:start'' JUndef s;
          old_object = jiff_clone (this_object s1)
      in case deepChange (this_object s1) obj of
           Threw e partial \<Rightarrow> (s1\<lparr>this_object := partial\<rparr>, Inl (TypeError e))
         | Done merged \<Rightarrow>
             let s2 = s1\<lparr>this_object := merged\<rparr>;
                 patch = diff old_object (this_object s2);
                 s3 = s2\<lparr>this_history := this_history s2 @ [patch]\<rparr>
             in (case round_trip patch s3 of
                   (s4, Inl e) \<Rightarrow> (s4, Inl e)
                 | (s4, Inr u) \<Rightarrow> (s4, Inr (Clone (jiff_clone (this_object s4))))))"

definition patch ::
  "(jv \<Rightarrow> jv \<Rightarrow> operation list) \<Rightarrow> jv \<Rightarrow> ('e, 't) patched_sync \<Rightarrow>
   ('e, 't) patched_sync \<times> ('e failure + handed)" where
  "patch diff obj s =
     (let s1 = notify ''patch:start'' JUndef s;
          patch = diff (this_object s1) obj;
          s2 = s1\<lparr>this_history := this_history s1 @ [patch]\<rparr>
      in case jiff_patch patch (this_object s2) of
           Inl e \<Rightarrow> (s2, Inl (PatchError e))
         | Inr v \<Rightarrow>
             let s3 = s2\<lparr>this_object := jiff_clone v\<rparr>
             in (case round_trip patch s3 of
                   (s4, Inl e) \<Rightarrow> (s4, Inl e)
                 | (s4, Inr u) \<Rightarrow> (s4, Inr (Internal (this_object s4)))))"

definition historyAll :: "('e, 't) patched_sync \<Rightarrow> operation list list" where
  "historyAll s = this_history s"

subsection \<open>Executions\<close>

datatype call = CallGet | CallFetch | CallChange jv | CallPatch jv

definition step ::
  "(jv \<Rightarrow> jv \<Rightarrow> operation list) \<Rightarrow> ('e, 't) patched_sync \<Rightarrow> call \<Rightarrow>
   ('e, 't) patched_sync \<times> ('e failure + handed)" where
  "step diff s c = (case c of
      CallGet \<Rightarrow> (s, Inr (get s))
    | CallFetch \<Rightarrow> fetch s
    | CallChange obj \<Rightarrow> change diff obj s
    | CallPatch obj \<Rightarrow> patch diff obj s)"

fun run :: "(jv \<Rightarrow> jv \<Rightarrow> operation list) \<Rightarrow> ('e, 't) patched_sync \<Rightarrow> call list \<Rightarrow> ('e, 't) patched_sync" where
  "run diff s [] = s"
| "run diff s (c # cs) = run diff (fst (step diff s c)) cs"

section \<open>Fixtures and reference definitions\<close>

text \<open>The contents of the subject when a call of the merge ends, by return or by throw.\<close>

fun outcome_value :: "outcome \<Rightarrow> jv" where
  "outcome_value (Done v) = v"
| "outcome_value (Threw e v) = v"

text \<open>The transport of the repository's tests (\<^verbatim>\<open>test/mocks/test-transport.js\<close>): its
  methods resolve with what the given functions return, and with \<^verbatim>\<open>[]\<close> when no function
  is given. A function that throws makes the method reject (\<open>Inl\<close>).\<close>

definition TestTransport ::
  "(unit \<Rightarrow> 'e + jv) option \<Rightarrow> (operation list \<Rightarrow> 'e + operation list) option \<Rightarrow>
   ('e, unit) transport" where
  "TestTransport get_fn patch_fn =
     \<lparr> tstate = (),
       tget = (\<lambda>t. ((case get_fn of None \<Rightarrow> Inr (JArr []) | Some f \<Rightarrow> f ()), t)),
       tpatch = (\<lambda>t p. ((case patch_fn of None \<Rightarrow> Inr [] | Some f \<Rightarrow> f p), t)) \<rparr>"

text \<open>A transport whose every request fails.\<close>

definition offline :: "(string, unit) transport" where
  "offline = TestTransport (Some (\<lambda>u. Inl ''offline'')) (Some (\<lambda>p. Inl ''offline''))"

text \<open>A patch from any document to any other, used where an example needs a \<open>diff\<close>.\<close>

definition replace_diff :: "jv \<Rightarrow> jv \<Rightarrow> operation list" where
  "replace_diff a b = (if a = b then [] else [Replace [] b])"

text \<open>The instance of the test "create a patch from the internal object against the
  provided object": the remote answers every patch with an \<^verbatim>\<open>add\<close> of \<^verbatim>\<open>/b\<close>.\<close>

definition served :: "(string, unit) patched_sync" where
  "served = new_instance (JObj [(''a'', JStr ''a''), (''b'', JStr ''b''), (''c'', JStr ''c'')])
     (Some (TestTransport None (Some (\<lambda>p. Inr [Add ''/b'' (JStr ''not b'')]))))"


text \<open>An instance on a failing transport, with listener 1 on \<^verbatim>\<open>get:start\<close>, 2 on
  \<^verbatim>\<open>get:error\<close>, 3 on \<^verbatim>\<open>patch:start\<close> and 4 on \<^verbatim>\<open>patch:error\<close>.\<close>

definition watched :: "(string, unit) patched_sync" where
  "watched = (new_instance (JObj [(''a'', JStr ''a'')]) (Some offline))
     \<lparr>this_listeners :=
        [(''get:start'', [1]), (''get:end'', []), (''get:error'', [2]),
         (''patch:start'', [3]), (''patch:end'', []), (''patch:error'', [4])]\<rparr>"


text \<open>The primitives that can hold properties of their own only through a wrapper:
  booleans, numbers and strings.\<close>

definition is_scalar :: "jv \<Rightarrow> bool" where
  "is_scalar v = (case v of JBool b \<Rightarrow> True | JNum n \<Rightarrow> True | JStr s \<Rightarrow> True | _ \<Rightarrow> False)"

subsection \<open>Array operations as the specification words them\<close>

text \<open>The four directives of an \<^verbatim>\<open>operations\<close> list, the object literal that carries each,
  and their meaning in the words of the specification: push appends, unshift prepends,
  splice inserts before the index, remove deletes at the index.\<close>

datatype array_op = OpPush jv | OpUnshift jv | OpSplice nat jv | OpRemove nat

fun encode :: "array_op \<Rightarrow> jv" where
  "encode (OpPush v) = JObj [(''op'', JStr ''push''), (''value'', v)]"
| "encode (OpUnshift v) = JObj [(''op'', JStr ''unshift''), (''value'', v)]"
| "encode (OpSplice i v) = JObj [(''op'', JStr ''splice''), (''index'', JNum (int i)), (''value'', v)]"
| "encode (OpRemove i) = JObj [(''op'', JStr ''remove''), (''index'', JNum (int i))]"

fun spec_operation :: "jv list \<Rightarrow> array_op \<Rightarrow> jv list" where
  "spec_operation xs (OpPush v) = xs @ [v]"
| "spec_operation xs (OpUnshift v) = v # xs"
| "spec_operation xs (OpSplice i v) = take i xs @ v # drop i xs"
| "spec_operation xs (OpRemove i) = take i xs @ drop (Suc i) xs"

definition spec_operations :: "jv list \<Rightarrow> array_op list \<Rightarrow> jv list" where
  "spec_operations xs ops = foldl spec_operation xs ops"

subsection \<open>Configurations the specification rejects\<close>




subsection \<open>Counting the calls of an execution\<close>

definition resolved :: "'e failure + handed \<Rightarrow> bool" where
  "resolved r = (case r of Inl e \<Rightarrow> False | Inr v \<Rightarrow> True)"

definition is_update :: "call \<Rightarrow> bool" where
  "is_update c = (case c of CallChange obj \<Rightarrow> True | CallPatch obj \<Rightarrow> True | _ \<Rightarrow> False)"

text \<open>The count of the specification: the \<^verbatim>\<open>change\<close> and \<^verbatim>\<open>patch\<close> calls of an
  execution that completed successfully.\<close>

fun spec_completed_updates ::
  "(jv \<Rightarrow> jv \<Rightarrow> operation list) \<Rightarrow> ('e, 't) patched_sync \<Rightarrow> call list \<Rightarrow> nat" where
  "spec_completed_updates diff s [] = 0"
| "spec_completed_updates diff s (c # cs) =
     (if is_update c \<and> resolved (snd (step diff s c)) then 1 else 0) +
     spec_completed_updates diff (fst (step diff s c)) cs"

text \<open>A call reaches \<^verbatim>\<open>this._history.push(patch)\<close> when it is a \<^verbatim>\<open>patch\<close>, or a
  \<^verbatim>\<open>change\<close> whose merge returns. The answer of the transport plays no part.\<close>

definition reaches_push :: "('e, 't) patched_sync \<Rightarrow> call \<Rightarrow> bool" where
  "reaches_push s c = (case c of
      CallChange obj \<Rightarrow> (case deepChange (this_object s) obj of Done v \<Rightarrow> True | Threw e v \<Rightarrow> False)
    | CallPatch obj \<Rightarrow> True
    | _ \<Rightarrow> False)"

fun pushes ::
  "(jv \<Rightarrow> jv \<Rightarrow> operation list) \<Rightarrow> ('e, 't) patched_sync \<Rightarrow> call list \<Rightarrow> nat" where
  "pushes diff s [] = 0"
| "pushes diff s (c # cs) =
     (if reaches_push s c then 1 else 0) + pushes diff (fst (step diff s c)) cs"

subsection \<open>Paths a patch leaves alone\<close>



section \<open>Properties of the merge\<close>

lemma map_of_assign_key_other:
  "k \<noteq> key \<Longrightarrow> map_of (assign_key S key v) k = map_of S k"
  by (simp add: assign_key_def Let_def update_conv' delete_conv')

lemma change_keys_preserves:
  "\<exists>S'. outcome_value (change_keys S es) = JObj S' \<and>
     (k \<notin> fst ` set es \<longrightarrow> map_of S' k = map_of S k)"
proof (induction es arbitrary: S)
  case Nil
  then show ?case by simp
next
  case (Cons e es)
  obtain key v where e: "e = (key, v)" by (cases e)
  show ?case
  proof (cases "truthy (obj_get S key) \<and> typeof_object v")
    case True
    show ?thesis
    proof (cases "deepChange (obj_get S key) v")
      case (Done r)
      from Cons.IH [of "AList.update key r S"] obtain S' where
        "outcome_value (change_keys (AList.update key r S) es) = JObj S'"
        "k \<notin> fst ` set es \<longrightarrow> map_of S' k = map_of (AList.update key r S) k" by blast
      with True Done e show ?thesis by (auto simp: update_conv')
    next
      case (Threw err partial)
      with True e show ?thesis by (auto simp: update_conv')
    qed
  next
    case False
    from Cons.IH [of "assign_key S key v"] obtain S' where
      "outcome_value (change_keys (assign_key S key v) es) = JObj S'"
      "k \<notin> fst ` set es \<longrightarrow> map_of S' k = map_of (assign_key S key v) k" by blast
    with False e show ?thesis by (auto simp: map_of_assign_key_other)
  qed
qed

lemma update_same: "map_of S k = Some v \<Longrightarrow> AList.update k v S = S"
  by (induction S) (auto split: if_splits)

lemma truthy_obj_get: "truthy (obj_get S k) \<Longrightarrow> map_of S k = Some (obj_get S k)"
  by (auto simp: obj_get_def truthy_def split: option.splits)

lemma deepChange_null_on_truthy:
  assumes "truthy (obj_get S k)"
  shows "deepChange (JObj S) (JObj [(k, JNull)]) =
     Threw (if isArray (obj_get S k) then ReadOfNullish else KeysOfNullish) (JObj S)"
proof -
  have m: "AList.update k (obj_get S k) S = S"
    using assms by (simp add: update_same truthy_obj_get)
  have t: "typeof_object JNull" by (simp add: typeof_object_def)
  show ?thesis
  proof (cases "obj_get S k")
    case (JArr xs)
    then show ?thesis using assms t m
      by (simp add: array_change_def isArray_def is_nullish_def)
  qed (use assms t m in \<open>simp_all add: isArray_def truthy_def\<close>)
qed

lemma notify_fields [simp]:
  "this_object (notify ev d s) = this_object s"
  "this_history (notify ev d s) = this_history s"
  "this_transport (notify ev d s) = this_transport s"
  "this_listeners (notify ev d s) = this_listeners s"
  by (simp_all add: notify_def split: option.splits)

text \<open>
  \<^bold>\<open>C6\<close> (key preservation). For every mapping state \<open>S\<close> and every mapping-shaped change
  request \<open>R\<close>, the merge ends with a mapping in which every key that \<open>R\<close> does not
  mention holds what it held in \<open>S\<close>: it is present if and only if it was, with the same
  value. This holds of the value the merge returns and, when the merge throws, of what
  it leaves behind.
\<close>

theorem C6_merge_preserves_absent_keys:
  "\<exists>S'. outcome_value (deepChange (JObj S) (JObj R)) = JObj S' \<and>
     (\<forall>k. k \<notin> fst ` set R \<longrightarrow> map_of S' k = map_of S k)"
proof -
  obtain S' where S': "outcome_value (change_keys S R) = JObj S'"
    using change_keys_preserves [of S R undefined] by blast
  have "map_of S' k = map_of S k" if "k \<notin> fst ` set R" for k
    using change_keys_preserves [of S R k] S' that by auto
  with S' show ?thesis by auto
qed

theorem C6_witness:
  "\<exists>S'. deepChange (JObj [(''a'', JStr ''a''), (''b'', JStr ''b''), (''c'', JStr ''c'')])
            (JObj [(''a'', JStr ''not a'')]) = Done (JObj S') \<and>
     map_of S' ''a'' = Some (JStr ''not a'') \<and>
     map_of S' ''b'' = Some (JStr ''b'') \<and> map_of S' ''c'' = Some (JStr ''c'')"
  using C6_merge_preserves_absent_keys
    [of "[(''a'', JStr ''a''), (''b'', JStr ''b''), (''c'', JStr ''c'')]" "[(''a'', JStr ''not a'')]"]
  by (simp add: truthy_def typeof_object_def obj_get_def assign_key_def DELETE_def)

text \<open>
  \<^bold>\<open>C10\<close> (a \<^verbatim>\<open>null\<close> change on a truthy key). When the state is a mapping in which key
  \<open>k\<close> holds a truthy value, \<^verbatim>\<open>change({k: null})\<close> rejects with a \<^verbatim>\<open>TypeError\<close> and \<open>k\<close>
  keeps its value: the guard \<^verbatim>\<open>subject[key] && typeof value === "object"\<close> sends
  \<^verbatim>\<open>null\<close> into the recursive call, which throws at \<^verbatim>\<open>Object.keys(null)\<close> (at
  \<^verbatim>\<open>changes.operations\<close> when the value held is an array). Nothing is appended to the
  history and no request is sent: the instance is as \<^verbatim>\<open>notify("patch:start")\<close> left it.
\<close>

theorem C10_null_change_raises_TypeError:
  assumes "this_object s = JObj S" and "truthy (obj_get S k)"
  shows "deepChange (JObj S) (JObj [(k, JNull)]) =
           Threw (if isArray (obj_get S k) then ReadOfNullish else KeysOfNullish) (JObj S) \<and>
         change diff (JObj [(k, JNull)]) s =
           (notify ''patch:start'' JUndef s,
            Inl (TypeError (if isArray (obj_get S k) then ReadOfNullish else KeysOfNullish)))"
  using assms deepChange_null_on_truthy [of S k]
  by (simp add: change_def Let_def del: deepChange.simps)

theorem C10_witness:
  "truthy (obj_get [(''a'', JStr ''a'')] ''a'') \<and>
   change replace_diff (JObj [(''a'', JNull)])
     (new_instance (JObj [(''a'', JStr ''a'')]) (Some (TestTransport None None))) =
     (new_instance (JObj [(''a'', JStr ''a'')])
        (Some (TestTransport None None :: (string, unit) transport)),
      Inl (TypeError KeysOfNullish))"
proof -
  let ?s = "new_instance (JObj [(''a'', JStr ''a'')])
              (Some (TestTransport None None :: (string, unit) transport))"
  have o: "this_object ?s = JObj [(''a'', JStr ''a'')]"
    by (simp add: new_instance_def or_else_def truthy_def jiff_clone_def)
  have t: "truthy (obj_get [(''a'', JStr ''a'')] ''a'')"
    by (simp add: obj_get_def truthy_def)
  have n: "notify ''patch:start'' JUndef ?s = ?s"
    by (simp add: notify_def new_instance_def initial_listeners_def)
  show ?thesis
    using C10_null_change_raises_TypeError [OF o t, of replace_diff] t n
    by (simp add: obj_get_def isArray_def)
qed

text \<open>Whatever the state, a change of a key to the DELETE marker ends with the key
  present and holding the marker.\<close>

lemma delete_marker_always_assigned:
  "deepChange (JObj S) (JObj [(k, JStr DELETE)]) = Done (JObj (assign_key S k (JStr DELETE))) \<and>
   map_of (assign_key S k (JStr DELETE)) k = Some (JStr DELETE)"
  by (simp add: typeof_object_def assign_key_def Let_def update_conv')

text \<open>
  \<^bold>\<open>C3\<close> (the DELETE marker). The documentation of \<^verbatim>\<open>change\<close> promises that a key whose
  change is \<^verbatim>\<open>PatchedSync.DELETE\<close> is removed. The code deletes the key and then, for
  want of a \<^verbatim>\<open>break\<close>, assigns the marker to it: merging \<^verbatim>\<open>{a: DELETE}\<close> into
  \<^verbatim>\<open>{a: 1, b: 2}\<close> gives \<^verbatim>\<open>{b: 2, a: DELETE}\<close>, not \<^verbatim>\<open>{b: 2}\<close>.
\<close>

theorem C3_delete_marker_is_assigned:
  "deepChange (JObj [(''a'', JNum 1), (''b'', JNum 2)]) (JObj [(''a'', JStr DELETE)]) =
     Done (JObj [(''b'', JNum 2), (''a'', JStr DELETE)])"
  by (simp add: assign_key_def obj_get_def truthy_def typeof_object_def DELETE_def)

text \<open>The merge of a non-empty object into a boolean, a number or a string throws, and so
  does the merge of such a change into a key that holds a truthy one of these.\<close>

lemma scalar_subject_throws:
  assumes "is_scalar cur"
  shows "\<exists>e. deepChange cur (JObj ((key, v) # rest)) = Threw e cur"
proof -
  have n: "\<not> is_nullish cur" using assms by (auto simp: is_scalar_def is_nullish_def)
  have f: "\<exists>e. first_key cur key v = Threw e cur"
    using n by (cases "deepChange (get_prop cur key) v") auto
  from assms f show ?thesis by (cases cur) (simp_all add: is_scalar_def)
qed

lemma object_change_on_truthy_scalar:
  assumes "truthy (obj_get S k)" and "is_scalar (obj_get S k)"
  shows "\<exists>e. deepChange (JObj S) (JObj [(k, JObj ((key, v) # rest))]) = Threw e (JObj S)"
proof -
  obtain e where e: "deepChange (obj_get S k) (JObj ((key, v) # rest)) = Threw e (obj_get S k)"
    using scalar_subject_throws [OF assms(2)] by blast
  have m: "AList.update k (obj_get S k) S = S"
    using assms(1) by (simp add: update_same truthy_obj_get)
  have t: "typeof_object (JObj ((key, v) # rest))" by (simp add: typeof_object_def)
  show ?thesis using assms(1) e m t by simp
qed

text \<open>
  \<^bold>\<open>C8\<close> (a change whose shape does not fit). An object-shaped change on a key that holds
  a truthy scalar is not a replacement: the guard looks only at the truthiness of
  \<^verbatim>\<open>subject[key]\<close>, the merge recurses into the scalar, and the assignment of a property
  on a primitive throws. Merging \<^verbatim>\<open>{a: {b: 1}}\<close> into \<^verbatim>\<open>{a: "a"}\<close> throws a \<^verbatim>\<open>TypeError\<close>
  and leaves \<^verbatim>\<open>a\<close> as it was, where the same change on \<^verbatim>\<open>{a: ""}\<close> replaces the value.
\<close>

theorem C8_object_change_on_scalar_throws:
  "deepChange (JObj [(''a'', JStr ''a'')]) (JObj [(''a'', JObj [(''b'', JNum 1)])]) =
     Threw WriteToPrimitive (JObj [(''a'', JStr ''a'')]) \<and>
   deepChange (JObj [(''a'', JStr [])]) (JObj [(''a'', JObj [(''b'', JNum 1)])]) =
     Done (JObj [(''a'', JObj [(''b'', JNum 1)])])"
  by (simp add: obj_get_def truthy_def typeof_object_def is_nullish_def get_prop_def index_of_def
      assign_key_def DELETE_def)

subsection \<open>Array operations\<close>

lemma splice_insert: "array_splice xs (int i) 0 [v] = take i xs @ v # drop i xs"
  by (simp add: array_splice_def Let_def min_def)

lemma splice_remove: "array_splice xs (int i) (Suc 0) [] = take i xs @ drop (Suc i) xs"
  by (simp add: array_splice_def Let_def min_def)

lemma apply_operation_encode: "apply_operation xs (encode op) = Inr (spec_operation xs op)"
  by (cases op)
     (simp_all add: apply_operation_def is_nullish_def get_prop_def obj_get_def Let_def
        to_integer_def to_number_def splice_insert splice_remove)

lemma apply_operations_encode:
  "apply_operations xs (map encode ops) = Done (JArr (foldl spec_operation xs ops))"
  by (induction ops arbitrary: xs) (simp_all add: apply_operation_encode)

text \<open>
  \<^bold>\<open>C9\<close> (array operations). When the subject is a sequence and the change is an object
  whose \<^verbatim>\<open>operations\<close> member lists push, unshift, splice and remove directives, the
  merge returns the sequence obtained by applying the directives from first to last,
  each to the sequence the one before it produced: push appends the value, unshift
  prepends it, splice inserts it before the index, remove deletes the element at the
  index.
\<close>

theorem C9_operations_in_list_order:
  assumes "obj_get changes ''operations'' = JArr (map encode ops)"
  shows "deepChange (JArr xs) (JObj changes) = Done (JArr (spec_operations xs ops))"
  using assms
  by (simp add: array_change_def isArray_def is_nullish_def get_prop_def truthy_def
        elements_def Let_def apply_operations_encode spec_operations_def)

theorem C9_witness:
  "deepChange (JObj [(''b'', JArr [JStr ''a'', JStr ''b'', JStr ''c''])])
     (JObj [(''b'', JObj [(''operations'', JArr [JObj [(''op'', JStr ''push''), (''value'', JStr ''d'')]])])]) =
   Done (JObj [(''b'', JArr [JStr ''a'', JStr ''b'', JStr ''c'', JStr ''d''])])"
proof -
  have h: "obj_get [(''operations'', JArr [JObj [(''op'', JStr ''push''), (''value'', JStr ''d'')]])] ''operations''
        = JArr (map encode [OpPush (JStr ''d'')])"
    by (simp add: obj_get_def)
  show ?thesis
    using C9_operations_in_list_order [OF h, of "[JStr ''a'', JStr ''b'', JStr ''c'']"]
    by (simp add: spec_operations_def obj_get_def truthy_def typeof_object_def del: deepChange.simps(1))
qed

section \<open>Properties of the patch codec\<close>

















section \<open>Properties of the engine\<close>



subsection \<open>Notifications\<close>

lemma notify_delivered:
  "(fn, ev, d) \<in> set (delivered (notify e x s)) \<Longrightarrow> (fn, ev, d) \<in> set (delivered s) \<or> ev = e"
  by (auto simp: notify_def split: option.splits)

lemma round_trip_delivered:
  "(fn, ev, d) \<in> set (delivered (fst (round_trip p s))) \<Longrightarrow>
   (fn, ev, d) \<in> set (delivered s) \<or> ev = ''patch:end''"
  by (auto simp: round_trip_def Let_def split: option.splits prod.splits sum.splits
      dest!: notify_delivered)

lemma round_trip_deliveredD:
  "round_trip p s = (s', r) \<Longrightarrow> (fn, ev, d) \<in> set (delivered s') \<Longrightarrow>
   (fn, ev, d) \<in> set (delivered s) \<or> ev = ''patch:end''"
  using round_trip_delivered [of fn ev d p s] by simp

lemma fetch_delivered:
  "(fn, ev, d) \<in> set (delivered (fst (fetch s))) \<Longrightarrow>
   (fn, ev, d) \<in> set (delivered s) \<or> ev = ''get:start'' \<or> ev = ''get:end''"
  by (auto simp: fetch_def Let_def split: option.splits prod.splits sum.splits
      dest!: notify_delivered)

lemma change_delivered:
  "(fn, ev, d) \<in> set (delivered (fst (change diff obj s))) \<Longrightarrow>
   (fn, ev, d) \<in> set (delivered s) \<or> ev = ''patch:start'' \<or> ev = ''patch:end''"
  by (auto simp: change_def Let_def split: outcome.splits prod.splits sum.splits
      dest!: round_trip_deliveredD notify_delivered)

lemma patch_delivered:
  "(fn, ev, d) \<in> set (delivered (fst (patch diff obj s))) \<Longrightarrow>
   (fn, ev, d) \<in> set (delivered s) \<or> ev = ''patch:start'' \<or> ev = ''patch:end''"
  by (auto simp: patch_def Let_def split: prod.splits sum.splits
      dest!: round_trip_deliveredD notify_delivered)

text \<open>No call of a method, whatever its outcome, delivers an event other than the two
  \<^verbatim>\<open>:start\<close> and the two \<^verbatim>\<open>:end\<close> events.\<close>

lemma step_delivers_no_error_event:
  "(fn, ev, d) \<in> set (delivered (fst (step diff s c))) \<Longrightarrow>
   (fn, ev, d) \<in> set (delivered s) \<or>
   ev = ''get:start'' \<or> ev = ''get:end'' \<or> ev = ''patch:start'' \<or> ev = ''patch:end''"
  using fetch_delivered [of fn ev d s] change_delivered [of fn ev d diff _ s]
    patch_delivered [of fn ev d diff _ s]
  by (cases c) (auto simp: step_def)

text \<open>
  \<^bold>\<open>C2\<close> (failures and their notifications). The documentation of \<^verbatim>\<open>on\<close> says that
  \<^verbatim>\<open>get:error\<close> fires when a GET request fails and \<^verbatim>\<open>patch:error\<close> when a PATCH request
  fails. No method ever calls \<^verbatim>\<open>notify\<close> with either name. On a transport that rejects
  every request, \<^verbatim>\<open>fetch\<close>, \<^verbatim>\<open>change\<close> and \<^verbatim>\<open>patch\<close> reject with the transport's failure,
  and the only listener called is the one of the \<^verbatim>\<open>:start\<close> event; the listeners 2 and 4
  of the \<^verbatim>\<open>:error\<close> events are never called.
\<close>

theorem C2_no_error_notification:
  "fetch watched =
     (watched\<lparr>delivered := [(1, ''get:start'', JUndef)]\<rparr>, Inl (TransportError ''offline'')) \<and>
   snd (change replace_diff (JObj [(''a'', JStr ''not a'')]) watched) = Inl (TransportError ''offline'') \<and>
   delivered (fst (change replace_diff (JObj [(''a'', JStr ''not a'')]) watched)) =
     [(3, ''patch:start'', JUndef)] \<and>
   snd (patch replace_diff (JObj [(''a'', JStr ''not a'')]) watched) = Inl (TransportError ''offline'') \<and>
   delivered (fst (patch replace_diff (JObj [(''a'', JStr ''not a'')]) watched)) =
     [(3, ''patch:start'', JUndef)]"
  by (simp add: fetch_def change_def patch_def round_trip_def watched_def new_instance_def offline_def
      TestTransport_def notify_def Let_def jiff_clone_def or_else_def truthy_def typeof_object_def
      obj_get_def assign_key_def DELETE_def replace_diff_def apply_op_def apply_edit_def
      parse_pointer_def)

text \<open>
  \<^bold>\<open>C4\<close> (the state is never handed out). \<^verbatim>\<open>get\<close>, \<^verbatim>\<open>fetch\<close> and \<^verbatim>\<open>change\<close> return
  \<^verbatim>\<open>jiff.clone(this._object)\<close>; \<^verbatim>\<open>patch\<close> returns \<^verbatim>\<open>this._object\<close> itself. In the
  repository's own test of \<^verbatim>\<open>patch\<close> the caller receives the object that is the state
  of the instance after the call.
\<close>

theorem C4_patch_returns_internal_object:
  "snd (patch replace_diff (JObj [(''a'', JStr ''not a'')]) served) =
     Inr (Internal (this_object (fst (patch replace_diff (JObj [(''a'', JStr ''not a'')]) served)))) \<and>
   this_object (fst (patch replace_diff (JObj [(''a'', JStr ''not a'')]) served)) =
     JObj [(''a'', JStr ''not a''), (''b'', JStr ''not b'')] \<and>
   get served = Clone (this_object served)"
  by (simp add: patch_def round_trip_def served_def new_instance_def get_def
      TestTransport_def notify_def Let_def jiff_clone_def or_else_def truthy_def initial_listeners_def
      replace_diff_def apply_op_def apply_edit_def parse_pointer_def edit_member_def)

subsection \<open>The history\<close>

lemma round_trip_history [simp]: "this_history (fst (round_trip p s)) = this_history s"
  by (simp add: round_trip_def Let_def split: option.splits prod.splits sum.splits)

lemma round_trip_historyD: "round_trip p s = (s', r) \<Longrightarrow> this_history s' = this_history s"
  using round_trip_history [of p s] by simp

lemma fetch_history [simp]: "this_history (fst (fetch s)) = this_history s"
  by (simp add: fetch_def Let_def split: option.splits prod.splits sum.splits)

lemma change_history:
  "this_history (fst (change diff obj s)) =
     (case deepChange (this_object s) obj of
        Done merged \<Rightarrow> this_history s @ [diff (this_object s) merged]
      | Threw e partial \<Rightarrow> this_history s)"
proof (cases "deepChange (this_object s) obj")
  case (Done merged)
  then show ?thesis
    by (auto simp: change_def Let_def jiff_clone_def split: prod.splits sum.splits
        dest!: round_trip_historyD)
next
  case (Threw e partial)
  then show ?thesis by (simp add: change_def Let_def)
qed

lemma patch_history:
  "this_history (fst (patch diff obj s)) = this_history s @ [diff (this_object s) obj]"
proof (cases "jiff_patch (diff (this_object s) obj) (this_object s)")
  case (Inl e)
  then show ?thesis by (simp add: patch_def Let_def)
next
  case (Inr v)
  then show ?thesis
    by (auto simp: patch_def Let_def split: prod.splits sum.splits dest!: round_trip_historyD)
qed

lemma step_history_length:
  "length (this_history (fst (step diff s c))) =
     length (this_history s) + (if reaches_push s c then 1 else 0)"
  by (cases c)
     (simp_all add: step_def reaches_push_def change_history patch_history split: outcome.splits)

lemma run_history_length:
  "length (this_history (run diff s cs)) = length (this_history s) + pushes diff s cs"
  by (induction cs arbitrary: s) (simp_all add: step_history_length)

text \<open>
  \<^bold>\<open>C5\<close> as the specification states it fails: the patch is pushed before the request is
  sent, so a \<^verbatim>\<open>change\<close> that the transport rejects has not completed and has still
  lengthened the history.
\<close>

theorem C5_counterexample:
  "snd (step replace_diff (new_instance (JObj [(''a'', JStr ''a'')]) (Some offline))
          (CallChange (JObj [(''a'', JStr ''not a'')]))) = Inl (TransportError ''offline'') \<and>
   spec_completed_updates replace_diff (new_instance (JObj [(''a'', JStr ''a'')]) (Some offline))
     [CallChange (JObj [(''a'', JStr ''not a'')])] = 0 \<and>
   length (historyAll (run replace_diff (new_instance (JObj [(''a'', JStr ''a'')]) (Some offline))
     [CallChange (JObj [(''a'', JStr ''not a'')])])) = 1"
  by (simp add: step_def change_def round_trip_def Let_def new_instance_def offline_def
      TestTransport_def notify_def initial_listeners_def or_else_def truthy_def typeof_object_def
      jiff_clone_def obj_get_def assign_key_def DELETE_def historyAll_def resolved_def is_update_def)

text \<open>
  \<^bold>\<open>C5\<close> (amended). Over every execution, the history grows by one entry for each
  \<^verbatim>\<open>patch\<close> call and for each \<^verbatim>\<open>change\<close> call whose merge returns, whether the
  transport then resolves or rejects the request; \<^verbatim>\<open>fetch\<close> and \<^verbatim>\<open>get\<close> never add an
  entry.
\<close>

theorem C5_history_counts_pushed_patches:
  "length (historyAll (run diff s cs)) = length (historyAll s) + pushes diff s cs \<and>
   historyAll (fst (fetch s)) = historyAll s \<and>
   historyAll (fst (step diff s CallGet)) = historyAll s"
  by (simp add: historyAll_def run_history_length step_def)

theorem C5_witness:
  "length (historyAll (run replace_diff (new_instance (JObj [(''a'', JStr ''a'')]) (Some offline))
     [CallFetch, CallChange (JObj [(''a'', JStr ''not a'')]), CallGet,
      CallPatch (JObj [(''a'', JStr ''b'')])])) = 2"
proof -
  let ?s = "new_instance (JObj [(''a'', JStr ''a'')]) (Some offline)"
  let ?cs = "[CallFetch, CallChange (JObj [(''a'', JStr ''not a'')]), CallGet,
      CallPatch (JObj [(''a'', JStr ''b'')])]"
  have "pushes replace_diff ?s ?cs = 2"
    by (simp add: step_def change_def fetch_def get_def round_trip_def Let_def new_instance_def
        offline_def TestTransport_def notify_def initial_listeners_def or_else_def truthy_def
        typeof_object_def jiff_clone_def obj_get_def assign_key_def DELETE_def reaches_push_def)
  moreover have "length (historyAll ?s) = 0"
    by (simp add: historyAll_def new_instance_def)
  ultimately show ?thesis
    using C5_history_counts_pushed_patches [of replace_diff ?s ?cs] by simp
qed

section \<open>Properties of the constructor\<close>




end
